theory Spec2Isabelle
  imports Main
begin

section \<open>JSON values and the Python operations the bridge applies to them\<close>

text \<open>
  The bridge server (\<^verbatim>\<open>bridge_server.py\<close>, class \<^verbatim>\<open>BROPBridgeServer\<close>) decodes every
  inbound frame with \<^verbatim>\<open>json.loads\<close> and encodes every outbound one with \<^verbatim>\<open>json.dumps\<close>.
  The model works on the decoded values. A Python \<^verbatim>\<open>dict\<close> is a list of key/value
  pairs in insertion order (keys are unique in what \<^verbatim>\<open>json.loads\<close> returns). Numbers are
  Python's unbounded integers; floating-point numbers are outside the model.
\<close>

datatype json =
    JNull
  | JBool bool
  | JInt int
  | JStr string
  | JArr "json list"
  | JObj "(string \<times> json) list"

type_synonym pydict = "(string \<times> json) list"

text \<open>\<^verbatim>\<open>d.get(k, default)\<close> and \<^verbatim>\<open>d[k] = v\<close> on a dict.\<close>

definition dict_get :: "pydict \<Rightarrow> string \<Rightarrow> json \<Rightarrow> json" where
  "dict_get d k dflt = (case map_of d k of None \<Rightarrow> dflt | Some v \<Rightarrow> v)"

fun dict_set :: "pydict \<Rightarrow> string \<Rightarrow> json \<Rightarrow> pydict" where
  "dict_set [] k v = [(k, v)]"
| "dict_set ((k', v') # d) k v =
     (if k' = k then (k, v) # d else (k', v') # dict_set d k v)"

text \<open>Truth value of an object in a condition (\<^verbatim>\<open>if x:\<close>).\<close>

fun py_truthy :: "json \<Rightarrow> bool" where
  "py_truthy JNull = False"
| "py_truthy (JBool b) = b"
| "py_truthy (JInt n) = (n \<noteq> 0)"
| "py_truthy (JStr s) = (s \<noteq> [])"
| "py_truthy (JArr xs) = (xs \<noteq> [])"
| "py_truthy (JObj d) = (d \<noteq> [])"

text \<open>
  Keys of the two pending-request dicts. Python compares dict keys with \<^verbatim>\<open>==\<close> after
  hashing: \<^verbatim>\<open>True\<close> and \<^verbatim>\<open>1\<close> are the same key, as are \<^verbatim>\<open>False\<close> and \<^verbatim>\<open>0\<close>; a list or a
  dict is unhashable, and using one as a key raises \<^verbatim>\<open>TypeError\<close>.
\<close>

datatype key = KNone | KInt int | KStr string

fun py_hashable :: "json \<Rightarrow> key option" where
  "py_hashable JNull = Some KNone"
| "py_hashable (JBool b) = Some (KInt (if b then 1 else 0))"
| "py_hashable (JInt n) = Some (KInt n)"
| "py_hashable (JStr s) = Some (KStr s)"
| "py_hashable (JArr xs) = None"
| "py_hashable (JObj d) = None"

subsection \<open>\<^verbatim>\<open>str\<close> of a decoded value\<close>

fun py_str_nat :: "nat \<Rightarrow> string" where
  "py_str_nat n =
     (if n < 10 then [''0123456789'' ! n]
      else py_str_nat (n div 10) @ [''0123456789'' ! (n mod 10)])"

declare py_str_nat.simps [simp del]

definition py_str_int :: "int \<Rightarrow> string" where
  "py_str_int i = (if i < 0 then CHR ''-'' # py_str_nat (nat (- i)) else py_str_nat (nat i))"

definition hex_digit :: "nat \<Rightarrow> char" where
  "hex_digit n = ''0123456789abcdef'' ! n"

text \<open>
  \<^verbatim>\<open>repr\<close> of a string, for code points below 256: single quotes unless the string has
  a single quote and no double quote; the quote character and the backslash are escaped,
  tab, newline and carriage return are written \<^verbatim>\<open>\t\<close>, \<^verbatim>\<open>\n\<close>, \<^verbatim>\<open>\r\<close>, and every other
  non-printable character as \<^verbatim>\<open>\xhh\<close>.
\<close>

definition py_printable :: "char \<Rightarrow> bool" where
  "py_printable c =
     (let n = (of_char c :: nat)
      in 32 \<le> n \<and> n \<noteq> 127 \<and> \<not> (128 \<le> n \<and> n \<le> 160) \<and> n \<noteq> 173)"

definition py_repr_char :: "char \<Rightarrow> char \<Rightarrow> string" where
  "py_repr_char quote c =
     (if c = quote \<or> c = CHR 0x5C then [CHR 0x5C, c]
      else if c = CHR 0x09 then [CHR 0x5C, CHR ''t'']
      else if c = CHR 0x0A then [CHR 0x5C, CHR ''n'']
      else if c = CHR 0x0D then [CHR 0x5C, CHR ''r'']
      else if \<not> py_printable c then
        [CHR 0x5C, CHR ''x'', hex_digit (of_char c div 16), hex_digit (of_char c mod 16)]
      else [c])"

definition py_repr_str :: "string \<Rightarrow> string" where
  "py_repr_str s =
     (let quote = (if CHR 0x27 \<in> set s \<and> CHR 0x22 \<notin> set s then CHR 0x22 else CHR 0x27)
      in quote # concat (map (py_repr_char quote) s) @ [quote])"

fun join_sep :: "string \<Rightarrow> string list \<Rightarrow> string" where
  "join_sep sep [] = []"
| "join_sep sep [x] = x"
| "join_sep sep (x # y # ys) = x @ sep @ join_sep sep (y # ys)"

fun py_repr :: "json \<Rightarrow> string" where
  "py_repr JNull = ''None''"
| "py_repr (JBool b) = (if b then ''True'' else ''False'')"
| "py_repr (JInt n) = py_str_int n"
| "py_repr (JStr s) = py_repr_str s"
| "py_repr (JArr xs) = ''['' @ join_sep '', '' (map py_repr xs) @ '']''"
| "py_repr (JObj d) =
     ''{'' @ join_sep '', '' (map (\<lambda>kv. py_repr_str (fst kv) @ '': '' @ py_repr (snd kv)) d) @ ''}''"

definition py_str :: "json \<Rightarrow> string" where
  "py_str v = (case v of JStr s \<Rightarrow> s | _ \<Rightarrow> py_repr v)"

section \<open>The bridge state\<close>

text \<open>
  A connection is named by a number. The record holds the fields of \<^verbatim>\<open>BROPBridgeServer\<close>
  that routing reads and writes, and three components of the world around it:
  \<open>closed_conns\<close>, the connections whose \<^verbatim>\<open>send\<close> raises \<^verbatim>\<open>ConnectionClosed\<close>; \<open>outbox\<close>,
  every message a \<^verbatim>\<open>send\<close> has handed to a connection, oldest first; and \<open>logs\<close>, the
  records written to the logger. The client sets are lists without repetition, in the
  order a broadcast iterates over them.
\<close>

type_synonym conn = nat

datatype exn = JSONDecodeError | AttributeError | TypeError | ConnectionClosed

datatype log_entry =
    Info_extension_connected
  | Info_extension_disconnected
  | Error_extension_client exn
  | Info_Extension string
  | Info_CDP json
  | Info_BROP json
  | Error_processing_extension exn
  | Error_processing_CDP exn
  | Error_processing_BROP exn

record bridge =
  extension_client :: "conn option"
  cdp_clients :: "conn list"
  brop_clients :: "conn list"
  pending_cdp_requests :: "key \<rightharpoonup> conn"
  pending_brop_requests :: "key \<rightharpoonup> conn"
  message_counter :: int
  closed_conns :: "conn set"
  outbox :: "(conn \<times> json) list"
  logs :: "log_entry list"

definition bridge_init :: bridge where
  "bridge_init =
     \<lparr>extension_client = None, cdp_clients = [], brop_clients = [],
      pending_cdp_requests = Map.empty, pending_brop_requests = Map.empty,
      message_counter = 0, closed_conns = {}, outbox = [], logs = []\<rparr>"

text \<open>
  A frame read from a websocket, as \<^verbatim>\<open>json.loads\<close> sees it: text that does not decode,
  or the decoded value.
\<close>

datatype inbound = Undecodable | Decoded json

definition json_loads :: "inbound \<Rightarrow> exn + json" where
  "json_loads message = (case message of Undecodable \<Rightarrow> Inl JSONDecodeError | Decoded v \<Rightarrow> Inr v)"

text \<open>
  A statement that can raise returns \<open>Inl (e, s)\<close>, the exception with the state reached
  when it was raised, or \<open>Inr s\<close>. \<^verbatim>\<open>await ws.send(json.dumps(m))\<close>:
\<close>

definition ws_send :: "bridge \<Rightarrow> conn \<Rightarrow> json \<Rightarrow> (exn \<times> bridge) + bridge" where
  "ws_send s ws m =
     (if ws \<in> closed_conns s then Inl (ConnectionClosed, s)
      else Inr (s\<lparr>outbox := outbox s @ [(ws, m)]\<rparr>))"

definition logger :: "bridge \<Rightarrow> log_entry \<Rightarrow> bridge" where
  "logger s l = s\<lparr>logs := logs s @ [l]\<rparr>"

definition get_next_message_id :: "bridge \<Rightarrow> string \<times> bridge" where
  "get_next_message_id s =
     (let s' = s\<lparr>message_counter := message_counter s + 1\<rparr>
      in (''bridge_'' @ py_str_int (message_counter s'), s'))"

section \<open>Protocol translation and event fan-out\<close>

definition convert_to_cdp_response :: "pydict \<Rightarrow> json" where
  "convert_to_cdp_response extension_response =
     (let message_id = dict_get extension_response ''id'' JNull
      in if py_truthy (dict_get extension_response ''success'' (JBool False))
         then (let result = dict_get extension_response ''result'' (JObj [])
               in JObj [(''id'', message_id), (''result'', result)])
         else (let error_msg = dict_get extension_response ''error'' (JStr ''Unknown error'')
               in JObj [(''id'', message_id),
                        (''error'', JObj [(''code'', JInt (- 32000)),
                                          (''message'', JStr (py_str error_msg))])]))"

text \<open>
  \<^verbatim>\<open>asyncio.gather(*[client.send(m) for client in clients], return_exceptions=True)\<close>:
  every send runs; an exception raised by one of them becomes its entry in the list of
  results instead of being raised.
\<close>

fun gather_send :: "bridge \<Rightarrow> conn list \<Rightarrow> json \<Rightarrow> exn option list \<times> bridge" where
  "gather_send s [] m = ([], s)"
| "gather_send s (client # clients) m =
     (case ws_send s client m of
        Inl (e, s') \<Rightarrow> (let (rs, s'') = gather_send s' clients m in (Some e # rs, s''))
      | Inr s' \<Rightarrow> (let (rs, s'') = gather_send s' clients m in (None # rs, s'')))"

definition broadcast_to_cdp_clients :: "bridge \<Rightarrow> json \<Rightarrow> bridge" where
  "broadcast_to_cdp_clients s message =
     (if cdp_clients s \<noteq> [] then snd (gather_send s (cdp_clients s) message) else s)"

definition broadcast_to_brop_clients :: "bridge \<Rightarrow> json \<Rightarrow> bridge" where
  "broadcast_to_brop_clients s message =
     (if brop_clients s \<noteq> [] then snd (gather_send s (brop_clients s) message) else s)"

definition broadcast_extension_event :: "bridge \<Rightarrow> pydict \<Rightarrow> bridge" where
  "broadcast_extension_event s event_data =
     (let event_type = dict_get event_data ''event_type'' JNull;
          s1 = (if event_type \<in> set [JStr ''console'', JStr ''page_load'', JStr ''navigation'']
                then (let cdp_event = JObj [(''method'', JStr (''Runtime.'' @ py_str event_type)),
                                            (''params'', dict_get event_data ''params'' (JObj []))]
                      in broadcast_to_cdp_clients s cdp_event)
                else s)
      in broadcast_to_brop_clients s1 (JObj event_data))"

section \<open>Message processing\<close>

text \<open>
  Each \<^verbatim>\<open>process_*_message\<close> method is a \<^verbatim>\<open>try\<close> block whose \<^verbatim>\<open>except Exception\<close> clause logs
  the exception and returns. The \<open>_try\<close> function is the block; the method catches what it
  raises. Calling \<^verbatim>\<open>.get\<close> on a decoded value that is not a dict raises
  \<^verbatim>\<open>AttributeError\<close>. All handlers run on one event loop; a call is modelled as running
  to its end before another handler runs.
\<close>

definition process_extension_message_try :: "bridge \<Rightarrow> inbound \<Rightarrow> (exn \<times> bridge) + bridge" where
  "process_extension_message_try s message =
     (case json_loads message of
        Inl e \<Rightarrow> Inl (e, s)
      | Inr data \<Rightarrow>
          (case data of
             JObj d \<Rightarrow>
               (let message_type = dict_get d ''type'' JNull
                in if message_type = JStr ''response'' then
                     (let request_id = dict_get d ''id'' JNull
                      in case py_hashable request_id of
                           None \<Rightarrow> Inl (TypeError, s)
                         | Some k \<Rightarrow>
                             (case pending_cdp_requests s k of
                                Some client \<Rightarrow>
                                  (let s1 = s\<lparr>pending_cdp_requests := (pending_cdp_requests s)(k := None)\<rparr>;
                                       cdp_response = convert_to_cdp_response d
                                   in ws_send s1 client cdp_response)
                              | None \<Rightarrow>
                                  (case pending_brop_requests s k of
                                     Some client \<Rightarrow>
                                       (let s1 = s\<lparr>pending_brop_requests := (pending_brop_requests s)(k := None)\<rparr>
                                        in ws_send s1 client data)
                                   | None \<Rightarrow> Inr s)))
                   else if message_type = JStr ''event'' then
                     Inr (broadcast_extension_event s d)
                   else if message_type = JStr ''log'' then
                     Inr (logger s (Info_Extension (py_str (dict_get d ''message'' (JStr ''Unknown log'')))))
                   else Inr s)
           | _ \<Rightarrow> Inl (AttributeError, s)))"

definition process_extension_message :: "bridge \<Rightarrow> inbound \<Rightarrow> bridge" where
  "process_extension_message s message =
     (case process_extension_message_try s message of
        Inl (e, s') \<Rightarrow> logger s' (Error_processing_extension e)
      | Inr s' \<Rightarrow> s')"

definition process_cdp_message_try :: "bridge \<Rightarrow> conn \<Rightarrow> inbound \<Rightarrow> (exn \<times> bridge) + bridge" where
  "process_cdp_message_try s client message =
     (case json_loads message of
        Inl e \<Rightarrow> Inl (e, s)
      | Inr data \<Rightarrow>
          (case data of
             JObj d \<Rightarrow>
               (let method = dict_get d ''method'' JNull;
                    params = dict_get d ''params'' (JObj []);
                    message_id = dict_get d ''id'' JNull;
                    s1 = logger s (Info_CDP method)
                in case extension_client s1 of
                     None \<Rightarrow>
                       (let error_response =
                              JObj [(''id'', message_id),
                                    (''error'', JObj [(''code'', JInt (- 32000)),
                                                      (''message'', JStr ''Chrome extension not connected'')])]
                        in ws_send s1 client error_response)
                   | Some ext \<Rightarrow>
                       (let extension_message =
                              JObj [(''type'', JStr ''cdp_command''), (''id'', message_id),
                                    (''method'', method), (''params'', params)]
                        in case py_hashable message_id of
                             None \<Rightarrow> Inl (TypeError, s1)
                           | Some k \<Rightarrow>
                               (let s2 = s1\<lparr>pending_cdp_requests := (pending_cdp_requests s1)(k \<mapsto> client)\<rparr>
                                in ws_send s2 ext extension_message)))
           | _ \<Rightarrow> Inl (AttributeError, s)))"

definition process_cdp_message :: "bridge \<Rightarrow> conn \<Rightarrow> inbound \<Rightarrow> bridge" where
  "process_cdp_message s client message =
     (case process_cdp_message_try s client message of
        Inl (e, s') \<Rightarrow> logger s' (Error_processing_CDP e)
      | Inr s' \<Rightarrow> s')"

text \<open>
  In \<^verbatim>\<open>data.get("id", self.get_next_message_id())\<close> the default is an argument, evaluated
  before the lookup: the counter advances for every decoded dict whose \<^verbatim>\<open>command\<close> is
  absent or a dict, also when the client supplied an id.
\<close>

definition process_brop_message_try :: "bridge \<Rightarrow> conn \<Rightarrow> inbound \<Rightarrow> (exn \<times> bridge) + bridge" where
  "process_brop_message_try s client message =
     (case json_loads message of
        Inl e \<Rightarrow> Inl (e, s)
      | Inr data \<Rightarrow>
          (case data of
             JObj d \<Rightarrow>
               (case dict_get d ''command'' (JObj []) of
                  JObj command \<Rightarrow>
                    (let command_type = dict_get command ''type'' JNull;
                         (next_id, s1) = get_next_message_id s;
                         message_id = dict_get d ''id'' (JStr next_id);
                         s2 = logger s1 (Info_BROP command_type)
                     in case extension_client s2 of
                          None \<Rightarrow>
                            (let error_response =
                                   JObj [(''id'', message_id), (''success'', JBool False),
                                         (''error'', JStr ''Chrome extension not connected'')]
                             in ws_send s2 client error_response)
                        | Some ext \<Rightarrow>
                            (let d1 = dict_set d ''id'' message_id;
                                 d2 = dict_set d1 ''type'' (JStr ''brop_command'')
                             in case py_hashable message_id of
                                  None \<Rightarrow> Inl (TypeError, s2)
                                | Some k \<Rightarrow>
                                    (let s3 = s2\<lparr>pending_brop_requests := (pending_brop_requests s2)(k \<mapsto> client)\<rparr>
                                     in ws_send s3 ext (JObj d2))))
                | _ \<Rightarrow> Inl (AttributeError, s))
           | _ \<Rightarrow> Inl (AttributeError, s)))"

definition process_brop_message :: "bridge \<Rightarrow> conn \<Rightarrow> inbound \<Rightarrow> bridge" where
  "process_brop_message s client message =
     (case process_brop_message_try s client message of
        Inl (e, s') \<Rightarrow> logger s' (Error_processing_BROP e)
      | Inr s' \<Rightarrow> s')"

section \<open>The extension endpoint's connection handler\<close>

text \<open>
  \<^verbatim>\<open>handle_extension_client\<close> runs in three stages, between which other handlers run:
  the statements up to the message loop, one call of \<^verbatim>\<open>process_extension_message\<close> for
  each frame, and the \<^verbatim>\<open>except\<close>/\<^verbatim>\<open>finally\<close> clauses once the loop has ended, normally
  (\<open>None\<close>) or by an exception. The timestamp of the welcome message is the clock's
  reading, given as an argument.
\<close>

definition handle_extension_client_exit :: "bridge \<Rightarrow> conn \<Rightarrow> exn option \<Rightarrow> bridge" where
  "handle_extension_client_exit s websocket raised =
     (let s1 = (case raised of
                  None \<Rightarrow> s
                | Some ConnectionClosed \<Rightarrow> logger s Info_extension_disconnected
                | Some e \<Rightarrow> logger s (Error_extension_client e))
      in s1\<lparr>extension_client := None\<rparr>)"

definition handle_extension_client_enter :: "bridge \<Rightarrow> conn \<Rightarrow> json \<Rightarrow> bridge" where
  "handle_extension_client_enter s websocket timestamp =
     (let s1 = logger s Info_extension_connected;
          s2 = s1\<lparr>extension_client := Some websocket\<rparr>;
          welcome = JObj [(''type'', JStr ''welcome''),
                          (''message'', JStr ''BROP Bridge Server - Extension connected successfully''),
                          (''timestamp'', timestamp)]
      in case ws_send s2 websocket welcome of
           Inl (e, s') \<Rightarrow> handle_extension_client_exit s' websocket (Some e)
         | Inr s' \<Rightarrow> s')"

section \<open>Observations and scenarios\<close>

text \<open>The member \<open>k\<close> of a JSON object, if the value is an object that has one.\<close>

definition json_member :: "json \<Rightarrow> string \<Rightarrow> json option" where
  "json_member v k = (case v of JObj d \<Rightarrow> map_of d k | _ \<Rightarrow> None)"

definition is_dict :: "json \<Rightarrow> bool" where
  "is_dict v = (case v of JObj d \<Rightarrow> True | _ \<Rightarrow> False)"

text \<open>The clients of a list whose transport is up, and what one connection has been sent.\<close>

definition live :: "bridge \<Rightarrow> conn list \<Rightarrow> conn list" where
  "live s clients = filter (\<lambda>c. c \<notin> closed_conns s) clients"

definition delivered_to :: "bridge \<Rightarrow> conn \<Rightarrow> json list" where
  "delivered_to s c = map snd (filter (\<lambda>p. fst p = c) (outbox s))"

text \<open>
  Runs of the bridge from its initial state. The agent is connection 9 (later 10),
  clients are 3 to 7.
\<close>

definition agent_connected :: bridge where
  "agent_connected = handle_extension_client_enter bridge_init 9 (JInt 0)"

definition navigate_7 :: pydict where
  "navigate_7 =
     [(''id'', JInt 7), (''method'', JStr ''Page.navigate''),
      (''params'', JObj [(''url'', JStr ''https://x'')])]"

definition reload_7 :: pydict where
  "reload_7 = [(''id'', JInt 7), (''method'', JStr ''Page.reload'')]"

definition get_title_7 :: pydict where
  "get_title_7 = [(''id'', JInt 7), (''command'', JObj [(''type'', JStr ''get_title'')])]"

definition get_title_no_id :: pydict where
  "get_title_no_id = [(''command'', JObj [(''type'', JStr ''get_title'')])]"

definition cdp_answer :: pydict where
  "cdp_answer =
     [(''type'', JStr ''response''), (''id'', JInt 7), (''success'', JBool True),
      (''result'', JObj [(''frameId'', JStr ''f1'')])]"

definition brop_answer :: pydict where
  "brop_answer =
     [(''type'', JStr ''response''), (''id'', JInt 7), (''success'', JBool True),
      (''result'', JStr ''Example Domain'')]"

definition console_event :: pydict where
  "console_event =
     [(''type'', JStr ''event''), (''event_type'', JStr ''console''),
      (''params'', JObj [(''text'', JStr ''hi'')])]"

definition tab_event :: pydict where
  "tab_event =
     [(''type'', JStr ''event''), (''event_type'', JStr ''tab_closed''),
      (''params'', JObj [(''tabId'', JInt 12)])]"

text \<open>CDP client 3 has sent \<open>navigate_7\<close>; then BROP client 4 sends \<open>get_title_7\<close>.\<close>

definition cdp_outstanding :: bridge where
  "cdp_outstanding = process_cdp_message agent_connected 3 (Decoded (JObj navigate_7))"

definition colliding_requests :: bridge where
  "colliding_requests = process_brop_message cdp_outstanding 4 (Decoded (JObj get_title_7))"

text \<open>The agent answers the BROP request first, then the CDP request.\<close>

definition colliding_answered :: bridge where
  "colliding_answered =
     process_extension_message
       (process_extension_message colliding_requests (Decoded (JObj brop_answer)))
       (Decoded (JObj cdp_answer))"

text \<open>CDP client 4 sends a request with the id that client 3's request still holds.\<close>

definition duplicate_requests :: bridge where
  "duplicate_requests = process_cdp_message cdp_outstanding 4 (Decoded (JObj reload_7))"

text \<open>Only BROP client 4 has a request outstanding.\<close>

definition brop_outstanding :: bridge where
  "brop_outstanding = process_brop_message agent_connected 4 (Decoded (JObj get_title_7))"

text \<open>Two CDP clients and one BROP client are connected.\<close>

definition listeners :: bridge where
  "listeners = agent_connected\<lparr>cdp_clients := [3, 4], brop_clients := [5]\<rparr>"

text \<open>Three CDP and two BROP clients; the transports of 4 and 6 have failed.\<close>

definition listeners_some_down :: bridge where
  "listeners_some_down =
     agent_connected\<lparr>cdp_clients := [3, 4, 5], brop_clients := [6, 7], closed_conns := {4, 6}\<rparr>"

text \<open>A second agent connection, 10, has taken the slot from connection 9.\<close>

definition agent_replaced :: bridge where
  "agent_replaced = handle_extension_client_enter agent_connected 10 (JInt 1)"

section \<open>Lemmas about the model\<close>

lemmas run_defs =
  handle_extension_client_enter_def handle_extension_client_exit_def
  process_cdp_message_def process_cdp_message_try_def
  process_brop_message_def process_brop_message_try_def
  process_extension_message_def process_extension_message_try_def
  json_loads_def ws_send_def logger_def get_next_message_id_def
  convert_to_cdp_response_def dict_get_def bridge_init_def Let_def

lemmas scenario_defs =
  agent_connected_def navigate_7_def reload_7_def get_title_7_def get_title_no_id_def
  cdp_answer_def brop_answer_def console_event_def tab_event_def cdp_outstanding_def
  colliding_requests_def colliding_answered_def duplicate_requests_def brop_outstanding_def
  listeners_def listeners_some_down_def agent_replaced_def

lemma map_of_dict_set:
  "map_of (dict_set d k v) k' = (if k' = k then Some v else map_of d k')"
  by (induction d k v rule: dict_set.induct) auto

lemma gather_send_result:
  "gather_send s cs m =
     (map (\<lambda>c. if c \<in> closed_conns s then Some ConnectionClosed else None) cs,
      s\<lparr>outbox := outbox s @ map (\<lambda>c. (c, m)) (live s cs)\<rparr>)"
  by (induction cs arbitrary: s) (auto simp: ws_send_def live_def)

lemma broadcast_to_cdp_clients_eq:
  "broadcast_to_cdp_clients s m =
     s\<lparr>outbox := outbox s @ map (\<lambda>c. (c, m)) (live s (cdp_clients s))\<rparr>"
  by (simp add: broadcast_to_cdp_clients_def gather_send_result live_def)

lemma broadcast_to_brop_clients_eq:
  "broadcast_to_brop_clients s m =
     s\<lparr>outbox := outbox s @ map (\<lambda>c. (c, m)) (live s (brop_clients s))\<rparr>"
  by (simp add: broadcast_to_brop_clients_def gather_send_result live_def)

lemma delivered_of_map:
  assumes "distinct cs"
  shows "map snd (filter (\<lambda>p. fst p = c) (map (\<lambda>c'. (c', m)) cs)) =
           (if c \<in> set cs then [m] else [])"
  using assms by (induction cs) auto

text \<open>
  A frame that does not decode, or decodes to something other than a dict, or (on the
  BROP endpoint) whose \<^verbatim>\<open>command\<close> is not a dict, is logged and dropped: nothing is sent.
\<close>

lemma malformed_cdp_message_dropped:
  assumes "message = Undecodable \<or> (message = Decoded v \<and> \<not> is_dict v)"
  shows "\<exists>e. process_cdp_message s client message = logger s (Error_processing_CDP e)"
  using assms
  by (auto simp: process_cdp_message_def process_cdp_message_try_def json_loads_def is_dict_def
      split: json.splits)

lemma malformed_brop_message_dropped:
  assumes "message = Undecodable \<or> (message = Decoded v \<and> \<not> is_dict v) \<or>
           (message = Decoded (JObj d) \<and> \<not> is_dict (dict_get d ''command'' (JObj [])))"
  shows "\<exists>e. process_brop_message s client message = logger s (Error_processing_BROP e)"
  using assms
  by (auto simp: process_brop_message_def process_brop_message_try_def json_loads_def is_dict_def
      split: json.splits)

section \<open>Requests while no agent is registered\<close>

text \<open>
  C1. A client request that arrives while the agent slot is empty, on the CDP endpoint or
  on the BROP endpoint (a decoded dict; on the BROP endpoint its \<^verbatim>\<open>command\<close> is absent or a
  dict), from a client whose transport is up: the bridge sends exactly one message, the
  synthesized error reply with the request's id (the id the bridge assigned when the BROP
  request has none), to the requesting client, and leaves both pending-request maps as
  they were.
\<close>

theorem agent_absent_error_reply:
  assumes "extension_client s = None" and "client \<notin> closed_conns s"
  shows "(let s' = process_cdp_message s client (Decoded (JObj d))
          in outbox s' =
               outbox s @
               [(client, JObj [(''id'', dict_get d ''id'' JNull),
                               (''error'', JObj [(''code'', JInt (- 32000)),
                                                 (''message'', JStr ''Chrome extension not connected'')])])] \<and>
             pending_cdp_requests s' = pending_cdp_requests s \<and>
             pending_brop_requests s' = pending_brop_requests s) \<and>
         (is_dict (dict_get d ''command'' (JObj [])) \<longrightarrow>
          (let s' = process_brop_message s client (Decoded (JObj d))
           in outbox s' =
                outbox s @
                [(client, JObj [(''id'', dict_get d ''id''
                                           (JStr (''bridge_'' @ py_str_int (message_counter s + 1)))),
                                (''success'', JBool False),
                                (''error'', JStr ''Chrome extension not connected'')])] \<and>
              pending_cdp_requests s' = pending_cdp_requests s \<and>
              pending_brop_requests s' = pending_brop_requests s))"
  using assms
  by (auto simp: process_cdp_message_def process_cdp_message_try_def process_brop_message_def
      process_brop_message_try_def json_loads_def logger_def ws_send_def Let_def is_dict_def
      get_next_message_id_def split: json.splits)

theorem agent_absent_error_reply_witness:
  "extension_client bridge_init = None \<and> 3 \<notin> closed_conns bridge_init \<and>
   outbox (process_cdp_message bridge_init 3
             (Decoded (JObj [(''id'', JInt 1), (''method'', JStr ''Browser.getVersion''),
                             (''params'', JObj [])]))) =
     [(3, JObj [(''id'', JInt 1),
                (''error'', JObj [(''code'', JInt (- 32000)),
                                  (''message'', JStr ''Chrome extension not connected'')])])] \<and>
   is_dict (dict_get get_title_no_id ''command'' (JObj [])) \<and>
   outbox (process_brop_message bridge_init 3 (Decoded (JObj get_title_no_id))) =
     [(3, JObj [(''id'', JStr ''bridge_1''), (''success'', JBool False),
                (''error'', JStr ''Chrome extension not connected'')])]"
  using agent_absent_error_reply [of bridge_init 3
      "[(''id'', JInt 1), (''method'', JStr ''Browser.getVersion''), (''params'', JObj [])]"]
    agent_absent_error_reply [of bridge_init 3 get_title_no_id]
  by (simp add: bridge_init_def Let_def dict_get_def is_dict_def get_title_no_id_def
      py_str_int_def py_str_nat.simps)

section \<open>Agent replies\<close>

text \<open>
  C2. \<^verbatim>\<open>convert_to_cdp_response\<close> turns an agent response whose \<^verbatim>\<open>success\<close> is \<^verbatim>\<open>true\<close> into
  \<^verbatim>\<open>{id, result}\<close>, with \<^verbatim>\<open>{}\<close> for a missing result, and one whose \<^verbatim>\<open>success\<close> is \<^verbatim>\<open>false\<close> or
  absent into \<^verbatim>\<open>{id, error: {code: -32000, message: str(error)}}\<close>. Whatever the response,
  an \<^verbatim>\<open>error\<close> member of the converted message has the code \<^verbatim>\<open>-32000\<close>.
\<close>

theorem convert_to_cdp_response_cases:
  "(map_of r ''success'' = Some (JBool True) \<longrightarrow>
      convert_to_cdp_response r =
        JObj [(''id'', dict_get r ''id'' JNull), (''result'', dict_get r ''result'' (JObj []))]) \<and>
   (map_of r ''success'' = Some (JBool False) \<or> map_of r ''success'' = None \<longrightarrow>
      convert_to_cdp_response r =
        JObj [(''id'', dict_get r ''id'' JNull),
              (''error'', JObj [(''code'', JInt (- 32000)),
                                (''message'', JStr (py_str (dict_get r ''error'' (JStr ''Unknown error''))))])]) \<and>
   (\<forall>e. json_member (convert_to_cdp_response r) ''error'' = Some e \<longrightarrow>
        json_member e ''code'' = Some (JInt (- 32000)))"
  by (auto simp: convert_to_cdp_response_def dict_get_def json_member_def Let_def)

theorem convert_to_cdp_response_cases_witness:
  "convert_to_cdp_response
     [(''type'', JStr ''response''), (''id'', JInt 5), (''success'', JBool True),
      (''result'', JObj [(''frameId'', JStr ''f1'')])] =
     JObj [(''id'', JInt 5), (''result'', JObj [(''frameId'', JStr ''f1'')])] \<and>
   convert_to_cdp_response
     [(''type'', JStr ''response''), (''id'', JInt 6), (''success'', JBool False),
      (''error'', JStr ''No such tab'')] =
     JObj [(''id'', JInt 6),
           (''error'', JObj [(''code'', JInt (- 32000)), (''message'', JStr ''No such tab'')])] \<and>
   convert_to_cdp_response [(''type'', JStr ''response''), (''id'', JInt 7)] =
     JObj [(''id'', JInt 7),
           (''error'', JObj [(''code'', JInt (- 32000)), (''message'', JStr ''Unknown error'')])] \<and>
   json_member (JObj [(''code'', JInt (- 32000)), (''message'', JStr ''No such tab'')]) ''code'' =
     Some (JInt (- 32000))"
  using
    convert_to_cdp_response_cases
      [of "[(''type'', JStr ''response''), (''id'', JInt 5), (''success'', JBool True),
            (''result'', JObj [(''frameId'', JStr ''f1'')])]"]
    convert_to_cdp_response_cases
      [of "[(''type'', JStr ''response''), (''id'', JInt 6), (''success'', JBool False),
            (''error'', JStr ''No such tab'')]"]
    convert_to_cdp_response_cases [of "[(''type'', JStr ''response''), (''id'', JInt 7)]"]
  by (simp add: dict_get_def py_str_def json_member_def)

text \<open>
  C3, as the claim states it: with a CDP request and a BROP request of the same id both
  outstanding, each of the two replies reaches the client of its own request. It fails
  when the agent answers the BROP request first. In \<open>colliding_answered\<close> the CDP client 3
  has been sent the title that answers client 4's \<^verbatim>\<open>get_title\<close>, reshaped as a CDP result,
  and the BROP client 4 has been sent the frame id that answers client 3's
  \<^verbatim>\<open>Page.navigate\<close>.
\<close>

theorem reply_collision_counterexample:
  "pending_cdp_requests colliding_requests (KInt 7) = Some 3 \<and>
   pending_brop_requests colliding_requests (KInt 7) = Some 4 \<and>
   delivered_to colliding_requests 3 = [] \<and>
   delivered_to colliding_requests 4 = [] \<and>
   delivered_to colliding_answered 3 =
     [JObj [(''id'', JInt 7), (''result'', JStr ''Example Domain'')]] \<and>
   delivered_to colliding_answered 4 = [JObj cdp_answer] \<and>
   \<not> (delivered_to colliding_answered 3 = [convert_to_cdp_response cdp_answer] \<and>
      delivered_to colliding_answered 4 = [JObj brop_answer])"
  by (simp add: delivered_to_def scenario_defs run_defs)

text \<open>
  C3, amended. An agent reply carries no protocol tag. With a CDP request and a BROP
  request whose ids are the same key both outstanding, and both clients' transports up,
  the first reply with that id goes to the CDP client, converted to the CDP form, and
  removes the CDP entry only; the second goes to the BROP client as it is and removes
  the BROP entry: in the order of arrival, whichever request each reply answers.
\<close>

theorem replies_dispatch_cdp_first:
  assumes "dict_get r1 ''type'' JNull = JStr ''response''"
    and "dict_get r2 ''type'' JNull = JStr ''response''"
    and "py_hashable (dict_get r1 ''id'' JNull) = Some k"
    and "py_hashable (dict_get r2 ''id'' JNull) = Some k"
    and "pending_cdp_requests s k = Some cdp_client"
    and "pending_brop_requests s k = Some brop_client"
    and "cdp_client \<notin> closed_conns s" and "brop_client \<notin> closed_conns s"
  shows "(let s1 = process_extension_message s (Decoded (JObj r1));
              s2 = process_extension_message s1 (Decoded (JObj r2))
          in s1 = s\<lparr>pending_cdp_requests := (pending_cdp_requests s)(k := None),
                    outbox := outbox s @ [(cdp_client, convert_to_cdp_response r1)]\<rparr> \<and>
             s2 = s1\<lparr>pending_brop_requests := (pending_brop_requests s)(k := None),
                     outbox := outbox s1 @ [(brop_client, JObj r2)]\<rparr>)"
  using assms
  by (simp add: process_extension_message_def process_extension_message_try_def json_loads_def
      ws_send_def Let_def)

theorem replies_dispatch_cdp_first_witness:
  "dict_get cdp_answer ''type'' JNull = JStr ''response'' \<and>
   dict_get brop_answer ''type'' JNull = JStr ''response'' \<and>
   py_hashable (dict_get cdp_answer ''id'' JNull) = Some (KInt 7) \<and>
   py_hashable (dict_get brop_answer ''id'' JNull) = Some (KInt 7) \<and>
   pending_cdp_requests colliding_requests (KInt 7) = Some 3 \<and>
   pending_brop_requests colliding_requests (KInt 7) = Some 4 \<and>
   3 \<notin> closed_conns colliding_requests \<and> 4 \<notin> closed_conns colliding_requests \<and>
   outbox (process_extension_message colliding_requests (Decoded (JObj cdp_answer))) =
     outbox colliding_requests @
     [(3, JObj [(''id'', JInt 7), (''result'', JObj [(''frameId'', JStr ''f1'')])])] \<and>
   outbox (process_extension_message
             (process_extension_message colliding_requests (Decoded (JObj cdp_answer)))
             (Decoded (JObj brop_answer))) =
     outbox colliding_requests @
     [(3, JObj [(''id'', JInt 7), (''result'', JObj [(''frameId'', JStr ''f1'')])]),
      (4, JObj brop_answer)]"
  using replies_dispatch_cdp_first [of cdp_answer brop_answer "KInt 7" colliding_requests 3 4]
  by (simp add: scenario_defs run_defs)

section \<open>Tracking a request whose id is already outstanding\<close>

text \<open>
  C4, as the claim states it: a second request whose id is already outstanding within
  its protocol does not replace the origin connection stored for the first. It fails:
  after client 3's request with id 7 the entry for 7 is connection 3, and after client 4's
  request with the same id it is connection 4.
\<close>

theorem duplicate_id_counterexample:
  "pending_cdp_requests cdp_outstanding (KInt 7) = Some 3 \<and>
   pending_cdp_requests duplicate_requests (KInt 7) = Some 4 \<and>
   pending_cdp_requests duplicate_requests (KInt 7) \<noteq> Some 3"
  by (simp add: scenario_defs run_defs)

text \<open>
  C4, amended. Tracking never fails. While an agent is registered, a request whose id is
  hashable leaves the pending map of its protocol with the requesting client stored under
  that id, whatever was stored there before: a second request with an outstanding id
  replaces the origin connection of the first.
\<close>

theorem tracking_overwrites:
  assumes "extension_client s = Some ext"
  shows "(py_hashable (dict_get d ''id'' JNull) = Some k \<longrightarrow>
            pending_cdp_requests (process_cdp_message s client (Decoded (JObj d))) k =
              Some client) \<and>
         (is_dict (dict_get d ''command'' (JObj [])) \<and>
          py_hashable (dict_get d ''id'' (JStr (''bridge_'' @ py_str_int (message_counter s + 1)))) =
            Some k \<longrightarrow>
            pending_brop_requests (process_brop_message s client (Decoded (JObj d))) k =
              Some client)"
  using assms
  by (auto simp: process_cdp_message_def process_cdp_message_try_def
      process_brop_message_def process_brop_message_try_def json_loads_def ws_send_def
      logger_def get_next_message_id_def Let_def is_dict_def split: json.splits)

theorem tracking_overwrites_witness:
  "extension_client cdp_outstanding = Some 9 \<and>
   pending_cdp_requests cdp_outstanding (KInt 7) = Some 3 \<and>
   py_hashable (dict_get reload_7 ''id'' JNull) = Some (KInt 7) \<and>
   pending_cdp_requests (process_cdp_message cdp_outstanding 4 (Decoded (JObj reload_7))) (KInt 7) =
     Some 4 \<and>
   extension_client brop_outstanding = Some 9 \<and>
   pending_brop_requests brop_outstanding (KInt 7) = Some 4 \<and>
   is_dict (dict_get get_title_7 ''command'' (JObj [])) \<and>
   pending_brop_requests (process_brop_message brop_outstanding 5 (Decoded (JObj get_title_7)))
     (KInt 7) = Some 5"
  using tracking_overwrites [of cdp_outstanding 9 reload_7 "KInt 7" 4]
    tracking_overwrites [of brop_outstanding 9 get_title_7 "KInt 7" 5]
  by (simp add: scenario_defs run_defs is_dict_def)

section \<open>Replies to BROP requests\<close>

text \<open>
  C5. An agent response whose id has no entry in the CDP pending map and an entry in the
  BROP pending map is sent to the client of that entry as the agent produced it: the
  message handed to the client is the decoded response itself. The entry is removed and
  nothing else changes.
\<close>

theorem brop_reply_forwarded_unmodified:
  assumes "dict_get d ''type'' JNull = JStr ''response''"
    and "py_hashable (dict_get d ''id'' JNull) = Some k"
    and "pending_cdp_requests s k = None"
    and "pending_brop_requests s k = Some client"
    and "client \<notin> closed_conns s"
  shows "process_extension_message s (Decoded (JObj d)) =
           s\<lparr>pending_brop_requests := (pending_brop_requests s)(k := None),
             outbox := outbox s @ [(client, JObj d)]\<rparr>"
  using assms
  by (simp add: process_extension_message_def process_extension_message_try_def json_loads_def
      ws_send_def Let_def)

theorem brop_reply_forwarded_unmodified_witness:
  "dict_get brop_answer ''type'' JNull = JStr ''response'' \<and>
   py_hashable (dict_get brop_answer ''id'' JNull) = Some (KInt 7) \<and>
   pending_cdp_requests brop_outstanding (KInt 7) = None \<and>
   pending_brop_requests brop_outstanding (KInt 7) = Some 4 \<and>
   4 \<notin> closed_conns brop_outstanding \<and>
   delivered_to (process_extension_message brop_outstanding (Decoded (JObj brop_answer))) 4 =
     [JObj [(''type'', JStr ''response''), (''id'', JInt 7), (''success'', JBool True),
            (''result'', JStr ''Example Domain'')]]"
  using brop_reply_forwarded_unmodified [of brop_answer "KInt 7" brop_outstanding 4]
  by (simp add: delivered_to_def scenario_defs run_defs)

section \<open>Events\<close>

text \<open>
  C6. For an extension message of type \<^verbatim>\<open>event\<close>: when its \<^verbatim>\<open>event_type\<close> is \<^verbatim>\<open>console\<close>,
  \<^verbatim>\<open>page_load\<close> or \<^verbatim>\<open>navigation\<close>, the messages sent are the notification
  \<^verbatim>\<open>{method: "Runtime." + event_type, params}\<close> to every CDP client whose transport is up,
  then the event as received to every BROP client whose transport is up; for any other
  \<^verbatim>\<open>event_type\<close>, only the event as received to the BROP clients.
\<close>

theorem event_fan_out:
  assumes "dict_get d ''type'' JNull = JStr ''event''"
  shows "(\<forall>e \<in> {''console'', ''page_load'', ''navigation''}.
            dict_get d ''event_type'' JNull = JStr e \<longrightarrow>
            outbox (process_extension_message s (Decoded (JObj d))) =
              outbox s @
              map (\<lambda>c. (c, JObj [(''method'', JStr (''Runtime.'' @ e)),
                                  (''params'', dict_get d ''params'' (JObj []))]))
                (live s (cdp_clients s)) @
              map (\<lambda>c. (c, JObj d)) (live s (brop_clients s))) \<and>
         (dict_get d ''event_type'' JNull \<notin>
            {JStr ''console'', JStr ''page_load'', JStr ''navigation''} \<longrightarrow>
            outbox (process_extension_message s (Decoded (JObj d))) =
              outbox s @ map (\<lambda>c. (c, JObj d)) (live s (brop_clients s)))"
  using assms
  by (auto simp: process_extension_message_def process_extension_message_try_def json_loads_def
      broadcast_extension_event_def broadcast_to_cdp_clients_eq broadcast_to_brop_clients_eq
      Let_def py_str_def live_def)

theorem event_fan_out_witness:
  "dict_get console_event ''type'' JNull = JStr ''event'' \<and>
   dict_get console_event ''event_type'' JNull = JStr ''console'' \<and>
   outbox (process_extension_message listeners (Decoded (JObj console_event))) =
     outbox listeners @
     [(3, JObj [(''method'', JStr ''Runtime.console''), (''params'', JObj [(''text'', JStr ''hi'')])]),
      (4, JObj [(''method'', JStr ''Runtime.console''), (''params'', JObj [(''text'', JStr ''hi'')])]),
      (5, JObj console_event)] \<and>
   dict_get tab_event ''type'' JNull = JStr ''event'' \<and>
   dict_get tab_event ''event_type'' JNull = JStr ''tab_closed'' \<and>
   outbox (process_extension_message listeners (Decoded (JObj tab_event))) =
     outbox listeners @ [(5, JObj tab_event)]"
  using event_fan_out [of console_event listeners] event_fan_out [of tab_event listeners]
  by (simp add: live_def listeners_def console_event_def tab_event_def agent_connected_def
      run_defs)

text \<open>
  C7. A broadcast to the CDP clients, or to the BROP clients, hands the message exactly
  once to every client of the set whose own transport is up, whatever the state of the
  other clients' transports. Processing an event raises no exception inside
  \<^verbatim>\<open>process_extension_message\<close> and writes nothing to the log, so a failed send does not
  reach the agent's handler.
\<close>

theorem broadcast_isolates_failures:
  "(distinct (cdp_clients s) \<and> c \<in> set (cdp_clients s) \<and> c \<notin> closed_conns s \<longrightarrow>
      delivered_to (broadcast_to_cdp_clients s m) c = delivered_to s c @ [m]) \<and>
   (distinct (brop_clients s) \<and> c \<in> set (brop_clients s) \<and> c \<notin> closed_conns s \<longrightarrow>
      delivered_to (broadcast_to_brop_clients s m) c = delivered_to s c @ [m]) \<and>
   (dict_get d ''type'' JNull = JStr ''event'' \<longrightarrow>
      process_extension_message_try s (Decoded (JObj d)) = Inr (broadcast_extension_event s d) \<and>
      logs (process_extension_message s (Decoded (JObj d))) = logs s \<and>
      extension_client (process_extension_message s (Decoded (JObj d))) = extension_client s)"
  by (auto simp: delivered_to_def broadcast_to_cdp_clients_eq broadcast_to_brop_clients_eq
      delivered_of_map live_def process_extension_message_def
      process_extension_message_try_def json_loads_def
      broadcast_extension_event_def Let_def)

theorem broadcast_isolates_failures_witness:
  "distinct (cdp_clients listeners_some_down) \<and> 5 \<in> set (cdp_clients listeners_some_down) \<and>
   4 \<in> closed_conns listeners_some_down \<and> 5 \<notin> closed_conns listeners_some_down \<and>
   delivered_to (broadcast_to_cdp_clients listeners_some_down (JStr ''m'')) 5 = [JStr ''m''] \<and>
   distinct (brop_clients listeners_some_down) \<and> 7 \<in> set (brop_clients listeners_some_down) \<and>
   6 \<in> closed_conns listeners_some_down \<and> 7 \<notin> closed_conns listeners_some_down \<and>
   delivered_to (broadcast_to_brop_clients listeners_some_down (JStr ''m'')) 7 = [JStr ''m''] \<and>
   dict_get console_event ''type'' JNull = JStr ''event'' \<and>
   logs (process_extension_message listeners_some_down (Decoded (JObj console_event))) =
     logs listeners_some_down"
  using broadcast_isolates_failures [of listeners_some_down 5 "JStr ''m''" console_event]
    broadcast_isolates_failures [of listeners_some_down 7 "JStr ''m''" console_event]
  by (simp add: delivered_to_def listeners_some_down_def agent_connected_def console_event_def
      run_defs)

section \<open>Forwarding a BROP request\<close>

text \<open>
  C8. While an agent whose transport is up is registered, a BROP request (a decoded dict
  whose \<^verbatim>\<open>command\<close> is absent or a dict, with a hashable id) is forwarded as the request
  with its \<^verbatim>\<open>id\<close> set and its \<^verbatim>\<open>type\<close> set to \<^verbatim>\<open>brop_command\<close>. The id is the client's when
  the request has one and \<^verbatim>\<open>bridge_N\<close> otherwise, \<open>N\<close> being the counter after it has been
  advanced by one. Every member other than \<^verbatim>\<open>id\<close> and \<^verbatim>\<open>type\<close>, the command among them, has
  the value the client sent.
\<close>

theorem brop_forward_adds_envelope:
  assumes "extension_client s = Some ext" and "ext \<notin> closed_conns s"
    and "is_dict (dict_get d ''command'' (JObj []))"
    and "py_hashable (dict_get d ''id'' (JStr (''bridge_'' @ py_str_int (message_counter s + 1)))) \<noteq> None"
  shows "(let message_id = dict_get d ''id'' (JStr (''bridge_'' @ py_str_int (message_counter s + 1)));
              sent = dict_set (dict_set d ''id'' message_id) ''type'' (JStr ''brop_command'');
              s' = process_brop_message s client (Decoded (JObj d))
          in outbox s' = outbox s @ [(ext, JObj sent)] \<and>
             map_of sent ''type'' = Some (JStr ''brop_command'') \<and>
             map_of sent ''id'' = Some message_id \<and>
             (\<forall>k. k \<noteq> ''id'' \<and> k \<noteq> ''type'' \<longrightarrow> map_of sent k = map_of d k) \<and>
             message_counter s' = message_counter s + 1)"
  using assms
  by (auto simp: process_brop_message_def process_brop_message_try_def json_loads_def ws_send_def
      logger_def get_next_message_id_def Let_def is_dict_def map_of_dict_set split: json.splits)

theorem brop_forward_adds_envelope_witness:
  "extension_client agent_connected = Some 9 \<and> 9 \<notin> closed_conns agent_connected \<and>
   is_dict (dict_get get_title_7 ''command'' (JObj [])) \<and>
   outbox (process_brop_message agent_connected 4 (Decoded (JObj get_title_7))) =
     outbox agent_connected @
     [(9, JObj [(''id'', JInt 7), (''command'', JObj [(''type'', JStr ''get_title'')]),
                (''type'', JStr ''brop_command'')])] \<and>
   outbox (process_brop_message agent_connected 4 (Decoded (JObj get_title_no_id))) =
     outbox agent_connected @
     [(9, JObj [(''command'', JObj [(''type'', JStr ''get_title'')]), (''id'', JStr ''bridge_1''),
                (''type'', JStr ''brop_command'')])] \<and>
   message_counter (process_brop_message agent_connected 4 (Decoded (JObj get_title_7))) = 1"
  using brop_forward_adds_envelope [of agent_connected 9 get_title_7 4]
    brop_forward_adds_envelope [of agent_connected 9 get_title_no_id 4]
  by (simp add: scenario_defs run_defs is_dict_def py_str_int_def py_str_nat.simps)

section \<open>The agent slot\<close>

text \<open>
  C9. When the handler of an agent connection ends, normally or by an exception, the
  agent slot is set to empty, also when the slot holds another, newer connection. A
  client request that arrives next, from a client whose transport is up, is answered with
  the agent-absent error.
\<close>

theorem stale_agent_exit_clears_slot:
  assumes "extension_client s = Some active" and "stale \<noteq> active" and "client \<notin> closed_conns s"
  shows "(let s' = handle_extension_client_exit s stale raised
          in extension_client s' = None \<and>
             outbox (process_cdp_message s' client (Decoded (JObj d))) =
               outbox s @
               [(client, JObj [(''id'', dict_get d ''id'' JNull),
                               (''error'', JObj [(''code'', JInt (- 32000)),
                                                 (''message'', JStr ''Chrome extension not connected'')])])] \<and>
             (is_dict (dict_get d ''command'' (JObj [])) \<longrightarrow>
              outbox (process_brop_message s' client (Decoded (JObj d))) =
                outbox s @
                [(client, JObj [(''id'', dict_get d ''id''
                                           (JStr (''bridge_'' @ py_str_int (message_counter s + 1)))),
                                (''success'', JBool False),
                                (''error'', JStr ''Chrome extension not connected'')])]))"
  using assms
  by (auto simp: handle_extension_client_exit_def process_cdp_message_def
      process_cdp_message_try_def process_brop_message_def process_brop_message_try_def
      json_loads_def ws_send_def logger_def get_next_message_id_def Let_def is_dict_def
      split: json.splits option.splits exn.splits)

theorem stale_agent_exit_clears_slot_witness:
  "extension_client agent_connected = Some 9 \<and>
   extension_client agent_replaced = Some 10 \<and> (9::nat) \<noteq> 10 \<and>
   3 \<notin> closed_conns agent_replaced \<and>
   extension_client (handle_extension_client_exit agent_replaced 9 (Some ConnectionClosed)) = None \<and>
   delivered_to
     (process_cdp_message (handle_extension_client_exit agent_replaced 9 (Some ConnectionClosed)) 3
        (Decoded (JObj navigate_7))) 3 =
     [JObj [(''id'', JInt 7),
            (''error'', JObj [(''code'', JInt (- 32000)),
                              (''message'', JStr ''Chrome extension not connected'')])]] \<and>
   is_dict (dict_get get_title_7 ''command'' (JObj [])) \<and>
   delivered_to
     (process_brop_message (handle_extension_client_exit agent_replaced 9 None) 3
        (Decoded (JObj get_title_7))) 3 =
     [JObj [(''id'', JInt 7), (''success'', JBool False),
            (''error'', JStr ''Chrome extension not connected'')]]"
  using stale_agent_exit_clears_slot [of agent_replaced 10 9 3 "Some ConnectionClosed" navigate_7]
    stale_agent_exit_clears_slot [of agent_replaced 10 9 3 None get_title_7]
  by (simp add: delivered_to_def scenario_defs run_defs is_dict_def)

section \<open>Extension messages of no known type\<close>

text \<open>
  C10. An extension message (a decoded dict) whose \<^verbatim>\<open>type\<close> is absent or is none of
  \<^verbatim>\<open>response\<close>, \<^verbatim>\<open>event\<close> and \<^verbatim>\<open>log\<close> leaves the bridge as it was: nothing is sent, nothing is
  logged, and the pending maps, the client sets and the agent slot are unchanged.
\<close>

theorem unknown_type_discarded:
  assumes "dict_get d ''type'' JNull \<notin> {JStr ''response'', JStr ''event'', JStr ''log''}"
  shows "process_extension_message s (Decoded (JObj d)) = s"
  using assms
  by (simp add: process_extension_message_def process_extension_message_try_def json_loads_def
      Let_def)

theorem unknown_type_discarded_witness:
  "dict_get [(''type'', JStr ''ping'')] ''type'' JNull \<noteq> JStr ''response'' \<and>
   dict_get [(''type'', JStr ''ping'')] ''type'' JNull \<noteq> JStr ''event'' \<and>
   dict_get [(''type'', JStr ''ping'')] ''type'' JNull \<noteq> JStr ''log'' \<and>
   process_extension_message colliding_requests (Decoded (JObj [(''type'', JStr ''ping'')])) =
     colliding_requests \<and>
   process_extension_message colliding_requests (Decoded (JObj [(''id'', JInt 7)])) =
     colliding_requests"
  using unknown_type_discarded [of "[(''type'', JStr ''ping'')]" colliding_requests]
    unknown_type_discarded [of "[(''id'', JInt 7)]" colliding_requests]
  by (simp add: dict_get_def)

end
